theory Spec2Isabelle
  imports Main "HOL-Library.Word" "HOL-Library.Sublist"
begin

section \<open>The standard service-control backend of QtService\<close>

text \<open>
  A shallow embedding of \<^verbatim>\<open>src/plugins/servicebackends/standard/standardservicecontrol.cpp\<close>.

  The class \<^verbatim>\<open>StandardServiceControl\<close> does nothing but talk to the operating system and
  to Qt: it takes a \<^verbatim>\<open>QLockFile\<close>, looks an executable up, spawns a \<^verbatim>\<open>QProcess\<close>, sends a
  signal or drives the Windows console. None of that is code of the repository, so it is
  not given a semantics here. Instead

  \<^item> every such call is recorded, with its arguments, in the \<open>trace\<close> of the run, and
  \<^item> what the call returns is read from an environment \<open>os\<close>, at the history of calls
    made so far (the call itself included). The environment is arbitrary: it may answer
    the same call differently each time, as an operating system does while the service
    starts or exits behind the controller's back.

  Logging (\<^verbatim>\<open>qCDebug\<close>) is not recorded; the one argument of a log statement that has an
  effect (\<^verbatim>\<open>getPid()\<close> in \<^verbatim>\<open>start\<close>) is evaluated when the logging category is enabled, as
  the macro does. \<^verbatim>\<open>tr\<close> is the identity (no translator installed). The search path, the
  root path and the name of the null device are taken as fixed during a run. The
  constructor only logs, and \<^verbatim>\<open>serviceName\<close>, which inspects the file system for a display
  name, is left out.
\<close>

subsection \<open>Data\<close>

type_synonym qint64 = "64 word"
type_synonym cint = "32 word"
type_synonym pid_t = "32 word"
type_synonym DWORD = "32 word"

text \<open>\<^verbatim>\<open>ServiceControl::Status\<close>, the values this backend reports.\<close>

datatype Status = Unknown | Stopped | Running

text \<open>The capabilities and the blocking modes this backend names.\<close>

datatype SupportFlag = StatusFlag | StopFlag | StartFlag

datatype BlockMode = Undetermined | NonBlocking

text \<open>\<^verbatim>\<open>QLockFile::LockError\<close> and the integer each enumerator converts to.\<close>

datatype LockError = NoError | LockFailedError | PermissionError | UnknownError

fun LockError_code :: "LockError \<Rightarrow> nat" where
  "LockError_code NoError = 0"
| "LockError_code LockFailedError = 1"
| "LockError_code PermissionError = 2"
| "LockError_code UnknownError = 3"

text \<open>A \<^verbatim>\<open>QLockFile\<close> object: the file it names and its stale-lock time in milliseconds.\<close>

record QLockFile =
  fileName :: string
  staleLockTime :: cint

datatype ProcessChannelMode = SeparateChannels | ForwardedChannels

datatype InputChannelMode = ManagedInputChannel | ForwardedInputChannel

text \<open>A \<^verbatim>\<open>QProcess\<close> object, as far as the backend configures it before launching.\<close>

record QProcess =
  program :: string
  arguments :: "string list"
  workingDirectory :: string
  processChannelMode :: ProcessChannelMode
  inputChannelMode :: InputChannelMode
  standardInputFile :: string
  standardOutputFile :: string
  standardErrorFile :: string

text \<open>The value a generic command returns: an invalid \<^verbatim>\<open>QVariant\<close> or one holding a \<^verbatim>\<open>qint64\<close>.\<close>

datatype QVariant = Invalid | LongLong qint64 | Text string

text \<open>The calls that leave the process, in the order they are made.\<close>

datatype syscall =
    TryLock QLockFile
  | Unlock QLockFile
  | GetLockInfo QLockFile
  | ProcessStart QProcess
  | ProcessStartDetached QProcess
  | Kill pid_t nat
  | FreeConsoleCall
  | AllocConsoleCall
  | AttachConsoleCall DWORD
  | SetConsoleCtrlHandlerCall bool
  | GenerateConsoleCtrlEventCall nat nat
  | Msleep nat

text \<open>
  The controller: the constructor's arguments, the runtime directory of the base class,
  the message of \<^verbatim>\<open>setError\<close>, and the calls made so far.
\<close>

record control =
  debugMode :: bool
  serviceId :: string
  runtimeDir :: string
  error :: string
  trace :: "syscall list"

text \<open>
  The environment. The first two fields are the build configuration
  (\<^verbatim>\<open>QT_CONFIG(process)\<close>, \<^verbatim>\<open>Q_OS_WIN\<close>); \<open>ServiceControl_start\<close> is the base class's
  \<^verbatim>\<open>start\<close>, which is not part of the sources. Every \<open>_sys\<close> field answers a call from the
  history that ends with it.
\<close>

record os =
  QT_CONFIG_process :: bool
  Q_OS_WIN :: bool
  logControl_debug :: bool
  ServiceControl_start :: "control \<Rightarrow> bool \<times> control"
  findExecutable :: "string \<Rightarrow> string"
  absoluteFilePath :: "string \<Rightarrow> string \<Rightarrow> string"
  rootPath :: string
  nullDevice :: string
  tryLock_sys :: "syscall list \<Rightarrow> bool \<times> LockError"
  getLockInfo_sys :: "syscall list \<Rightarrow> bool \<times> qint64"
  start_sys :: "syscall list \<Rightarrow> bool \<times> qint64 \<times> string"
  startDetached_sys :: "syscall list \<Rightarrow> bool \<times> qint64 \<times> string"
  kill_sys :: "syscall list \<Rightarrow> cint"
  FreeConsole_sys :: "syscall list \<Rightarrow> bool"
  AttachConsole_sys :: "syscall list \<Rightarrow> bool"
  SetConsoleCtrlHandler_sys :: "syscall list \<Rightarrow> bool"
  GenerateConsoleCtrlEvent_sys :: "syscall list \<Rightarrow> bool"
  GetLastError_string :: "syscall list \<Rightarrow> string"

subsection \<open>Strings\<close>

text \<open>
  \<^verbatim>\<open>QString::arg\<close> for a format whose only place marker is \<^verbatim>\<open>%1\<close>: every \<^verbatim>\<open>%1\<close> is
  replaced by the argument, and the argument is not scanned again.
\<close>

fun arg :: "string \<Rightarrow> string \<Rightarrow> string" where
  "arg [] a = []"
| "arg [c] a = [c]"
| "arg (c # d # cs) a =
     (if c = CHR ''%'' \<and> d = CHR ''1'' then a @ arg cs a else c # arg (d # cs) a)"

text \<open>\<^verbatim>\<open>QString::arg(int)\<close> prints its argument in decimal.\<close>

fun decimal :: "nat \<Rightarrow> string" where
  "decimal n =
     (if n < 10 then [''0123456789'' ! n]
      else decimal (n div 10) @ [''0123456789'' ! (n mod 10)])"

declare decimal.simps [simp del]

definition tr :: "string \<Rightarrow> string" where
  "tr s = s"

subsection \<open>The calls\<close>

definition call :: "syscall \<Rightarrow> control \<Rightarrow> control" where
  "call e c = c\<lparr>trace := trace c @ [e]\<rparr>"

definition setError :: "string \<Rightarrow> control \<Rightarrow> control" where
  "setError msg c = c\<lparr>error := msg\<rparr>"

text \<open>\<^verbatim>\<open>lock->tryLock()\<close> with \<^verbatim>\<open>lock->error()\<close> after it, and \<^verbatim>\<open>lock->unlock()\<close>.\<close>

definition tryLock :: "os \<Rightarrow> QLockFile \<Rightarrow> control \<Rightarrow> (bool \<times> LockError) \<times> control" where
  "tryLock os l c = (let c1 = call (TryLock l) c in (tryLock_sys os (trace c1), c1))"

definition unlock :: "QLockFile \<Rightarrow> control \<Rightarrow> control" where
  "unlock l c = call (Unlock l) c"

definition getLockInfo :: "os \<Rightarrow> QLockFile \<Rightarrow> control \<Rightarrow> (bool \<times> qint64) \<times> control" where
  "getLockInfo os l c = (let c1 = call (GetLockInfo l) c in (getLockInfo_sys os (trace c1), c1))"

definition kill :: "os \<Rightarrow> pid_t \<Rightarrow> nat \<Rightarrow> control \<Rightarrow> cint \<times> control" where
  "kill os p sig c = (let c1 = call (Kill p sig) c in (kill_sys os (trace c1), c1))"

definition FreeConsole :: "os \<Rightarrow> control \<Rightarrow> bool \<times> control" where
  "FreeConsole os c = (let c1 = call FreeConsoleCall c in (FreeConsole_sys os (trace c1), c1))"

definition AllocConsole :: "control \<Rightarrow> control" where
  "AllocConsole c = call AllocConsoleCall c"

definition AttachConsole :: "os \<Rightarrow> DWORD \<Rightarrow> control \<Rightarrow> bool \<times> control" where
  "AttachConsole os p c =
     (let c1 = call (AttachConsoleCall p) c in (AttachConsole_sys os (trace c1), c1))"

definition SetConsoleCtrlHandler :: "os \<Rightarrow> bool \<Rightarrow> control \<Rightarrow> bool \<times> control" where
  "SetConsoleCtrlHandler os add c =
     (let c1 = call (SetConsoleCtrlHandlerCall add) c in (SetConsoleCtrlHandler_sys os (trace c1), c1))"

definition GenerateConsoleCtrlEvent :: "os \<Rightarrow> nat \<Rightarrow> nat \<Rightarrow> control \<Rightarrow> bool \<times> control" where
  "GenerateConsoleCtrlEvent os ev grp c =
     (let c1 = call (GenerateConsoleCtrlEventCall ev grp) c
      in (GenerateConsoleCtrlEvent_sys os (trace c1), c1))"

definition msleep :: "nat \<Rightarrow> control \<Rightarrow> control" where
  "msleep ms c = call (Msleep ms) c"

text \<open>\<^verbatim>\<open>qt_error_string(GetLastError())\<close>: the message of the last failed call.\<close>

definition qt_error_string :: "os \<Rightarrow> control \<Rightarrow> string" where
  "qt_error_string os c = GetLastError_string os (trace c)"

definition SIGTERM :: nat where
  "SIGTERM = 15"

definition CTRL_C_EVENT :: nat where
  "CTRL_C_EVENT = 0"

definition INT_MAX :: cint where
  "INT_MAX = 2147483647"

subsection \<open>The member functions\<close>

definition backend :: "control \<Rightarrow> string" where
  "backend c = (if debugMode c then ''debug'' else ''standard'')"

definition supportFlags :: "os \<Rightarrow> SupportFlag set" where
  "supportFlags os =
     (let flags = {StatusFlag, StopFlag}
      in if QT_CONFIG_process os then flags \<union> {StartFlag} else flags)"

definition blocking :: "os \<Rightarrow> BlockMode" where
  "blocking os = (if Q_OS_WIN os then Undetermined else NonBlocking)"

definition serviceExists :: "os \<Rightarrow> control \<Rightarrow> bool" where
  "serviceExists os c = (findExecutable os (serviceId c) \<noteq> [])"

text \<open>A new \<^verbatim>\<open>QLockFile\<close> has Qt's default stale-lock time of 30 seconds.\<close>

definition QLockFile_create :: "string \<Rightarrow> QLockFile" where
  "QLockFile_create path = \<lparr>fileName = path, staleLockTime = 30000\<rparr>"

definition setStaleLockTime :: "cint \<Rightarrow> QLockFile \<Rightarrow> QLockFile" where
  "setStaleLockTime t l = l\<lparr>staleLockTime := t\<rparr>"

definition statusLock :: "os \<Rightarrow> control \<Rightarrow> QLockFile" where
  "statusLock os c =
     setStaleLockTime INT_MAX
       (QLockFile_create (absoluteFilePath os (runtimeDir c) ''qstandard.lock''))"

definition status :: "os \<Rightarrow> control \<Rightarrow> Status \<times> control" where
  "status os c =
     (let lock = statusLock os c;
          ((locked, err), c1) = tryLock os lock c
      in if locked then (Stopped, unlock lock c1)
         else if err = LockFailedError then (Running, c1)
         else (Unknown,
               setError (arg (tr ''Failed to access lockfile with error: %1'')
                             (decimal (LockError_code err))) c1))"

definition getPid :: "os \<Rightarrow> control \<Rightarrow> qint64 \<times> control" where
  "getPid os c =
     (let ((ok, pid), c1) = getLockInfo os (statusLock os c) c
      in if ok then (pid, c1) else (- 1, c1))"

definition callGenericCommand :: "os \<Rightarrow> string \<Rightarrow> QVariant list \<Rightarrow> control \<Rightarrow> QVariant \<times> control" where
  "callGenericCommand os kind args c =
     (if kind = ''getPid'' then (let (pid, c1) = getPid os c in (LongLong pid, c1))
      else (Invalid, c))"

definition QProcess_new :: QProcess where
  "QProcess_new =
     \<lparr>program = [], arguments = [], workingDirectory = [],
      processChannelMode = SeparateChannels, inputChannelMode = ManagedInputChannel,
      standardInputFile = [], standardOutputFile = [], standardErrorFile = []\<rparr>"

text \<open>The lambda \<^verbatim>\<open>prepareProc\<close> of \<^verbatim>\<open>start\<close>.\<close>

definition prepareProc :: "os \<Rightarrow> control \<Rightarrow> string \<Rightarrow> QProcess \<Rightarrow> QProcess" where
  "prepareProc os c bin svcProc =
     svcProc\<lparr>program := bin,
             arguments := [''--backend'', backend c],
             workingDirectory := rootPath os\<rparr>"

text \<open>
  The two ways of launching. Each returns the locals \<^verbatim>\<open>ok\<close>, \<^verbatim>\<open>pid\<close> and \<^verbatim>\<open>errorString\<close>,
  which start out as \<^verbatim>\<open>false\<close>, \<^verbatim>\<open>0\<close> and the empty string. \<open>ProcessStart\<close> stands for
  \<^verbatim>\<open>start()\<close> followed by \<^verbatim>\<open>waitForStarted()\<close>.
\<close>

definition launchDebug :: "os \<Rightarrow> string \<Rightarrow> control \<Rightarrow> (bool \<times> qint64 \<times> string) \<times> control" where
  "launchDebug os bin c =
     (let svcProc = (prepareProc os c bin QProcess_new)
                      \<lparr>processChannelMode := ForwardedChannels,
                       inputChannelMode := ForwardedInputChannel\<rparr>;
          c1 = call (ProcessStart svcProc) c;
          (started, processId, errorString) = start_sys os (trace c1)
      in if started then ((True, processId, []), c1) else ((False, 0, errorString), c1))"

definition launchDetached :: "os \<Rightarrow> string \<Rightarrow> control \<Rightarrow> (bool \<times> qint64 \<times> string) \<times> control" where
  "launchDetached os bin c =
     (let svcProc = (prepareProc os c bin QProcess_new)
                      \<lparr>standardInputFile := nullDevice os,
                       standardOutputFile := nullDevice os,
                       standardErrorFile := nullDevice os\<rparr>;
          c1 = call (ProcessStartDetached svcProc) c;
          (started, pid, errorString) = startDetached_sys os (trace c1)
      in if started then ((True, pid, []), c1) else ((False, pid, errorString), c1))"

definition start :: "os \<Rightarrow> control \<Rightarrow> bool \<times> control" where
  "start os c =
     (if QT_CONFIG_process os then
        (let (st, c1) = status os c
         in if st = Running
            then (True, if logControl_debug os then snd (getPid os c1) else c1)
            else
              (let bin = findExecutable os (serviceId c1)
               in if bin = []
                  then (False,
                        setError (arg (tr ''Unabled to find executable for service with id \"%1\"'')
                                      (serviceId c1)) c1)
                  else
                    (let ((ok, pid, errorString), c2) =
                           (if debugMode c1 then launchDebug os bin c1
                            else launchDetached os bin c1)
                     in if ok then (True, c2)
                        else (False,
                              setError (arg (tr ''Failed to start service process with error: %1'')
                                            errorString) c2))))
      else ServiceControl_start os c)"

text \<open>The retry loop of the Windows branch of \<^verbatim>\<open>stop\<close>; it returns the local \<^verbatim>\<open>ok\<close>.\<close>

function stop_loop :: "os \<Rightarrow> nat \<Rightarrow> control \<Rightarrow> bool \<times> control" where
  "stop_loop os i c =
     (if i < 10 then
        (let (sent, c1) = GenerateConsoleCtrlEvent os CTRL_C_EVENT 0 c
         in if sent then
              (let (st, c2) = status os c1
               in if st = Running then stop_loop os (i + 1) (msleep 500 c2)
                  else (True, c2))
            else stop_loop os (i + 1)
                   (setError (arg (tr ''Failed to send stop signal with error: %1'')
                                  (qt_error_string os c1)) c1))
      else (False, c))"
  by pat_completeness auto
termination
  by (relation "measure (\<lambda>(os, i, c). 10 - i)") auto

declare stop_loop.simps [simp del]

text \<open>
  The Windows branch of \<^verbatim>\<open>stop\<close>. The three scope guards run when their scope is left, in
  reverse order of construction: \<^verbatim>\<open>_sg2\<close> re-enables the handler, \<^verbatim>\<open>_sg1\<close> frees the
  attached console, \<^verbatim>\<open>_sg0\<close> allocates a console again if there was one.
\<close>

definition stop_windows :: "os \<Rightarrow> qint64 \<Rightarrow> control \<Rightarrow> bool \<times> control" where
  "stop_windows os pid c =
     (let (hadConsole, c1) = FreeConsole os c;
          (attached, c2) = AttachConsole os (ucast pid) c1;
          (ok, c3) =
            (if attached then
               (let (disabled, c4) = SetConsoleCtrlHandler os True c2;
                    (ok, c5) =
                      (if disabled then
                         (let (ok, c6) = stop_loop os 0 c4;
                              c7 = (if \<not> ok then setError (tr ''Service did not stop yet'') c6
                                    else c6)
                          in (ok, snd (SetConsoleCtrlHandler os False c7)))
                       else (False,
                             setError (arg (tr ''Failed to disable local console handler with error: %1'')
                                           (qt_error_string os c4)) c4))
                in (ok, snd (FreeConsole os c5)))
             else (False,
                   setError (arg (tr ''Failed to attach to service console with error: %1'')
                                 (qt_error_string os c2)) c2))
      in (ok, if hadConsole then AllocConsole c3 else c3))"

text \<open>The POSIX branch: \<^verbatim>\<open>kill(static_cast<pid_t>(pid), SIGTERM) == 0\<close>.\<close>

definition stop_posix :: "os \<Rightarrow> qint64 \<Rightarrow> control \<Rightarrow> bool \<times> control" where
  "stop_posix os pid c = (let (r, c1) = kill os (scast pid) SIGTERM c in (r = 0, c1))"

definition stop :: "os \<Rightarrow> control \<Rightarrow> bool \<times> control" where
  "stop os c =
     (let (st, c1) = status os c
      in if st = Stopped then (True, c1)
         else
           (let (pid, c2) = getPid os c1
            in if pid = - 1
               then (False, setError (tr ''Failed to get pid of running service'') c2)
               else if Q_OS_WIN os then stop_windows os pid c2
               else stop_posix os pid c2))"

subsection \<open>Reading a trace\<close>

fun is_spawn :: "syscall \<Rightarrow> bool" where
  "is_spawn (ProcessStart p) = True"
| "is_spawn (ProcessStartDetached p) = True"
| "is_spawn e = False"

text \<open>The calls with which \<^verbatim>\<open>stop\<close> reaches the service: the signal and the console functions.\<close>

fun is_signal :: "syscall \<Rightarrow> bool" where
  "is_signal (Kill p sig) = True"
| "is_signal FreeConsoleCall = True"
| "is_signal AllocConsoleCall = True"
| "is_signal (AttachConsoleCall p) = True"
| "is_signal (SetConsoleCtrlHandlerCall add) = True"
| "is_signal (GenerateConsoleCtrlEventCall ev grp) = True"
| "is_signal e = False"

text \<open>An attempt of the Windows retry loop is one \<^verbatim>\<open>GenerateConsoleCtrlEvent\<close> call.\<close>

fun is_attempt :: "syscall \<Rightarrow> bool" where
  "is_attempt (GenerateConsoleCtrlEventCall ev grp) = True"
| "is_attempt e = False"

definition attempts :: "syscall list \<Rightarrow> nat" where
  "attempts h = length (filter is_attempt h)"

text \<open>The milliseconds spent in \<^verbatim>\<open>QThread::msleep\<close>.\<close>

fun slept :: "syscall list \<Rightarrow> nat" where
  "slept [] = 0"
| "slept (Msleep ms # h) = ms + slept h"
| "slept (e # h) = slept h"

text \<open>
  Whether a 500 ms sleep separates each attempt from the next one: after an attempt, a
  \<open>Msleep 500\<close> comes before any further attempt.
\<close>

fun sleeps_first :: "syscall list \<Rightarrow> bool" where
  "sleeps_first [] = True"
| "sleeps_first (e # h) =
     (if e = Msleep 500 then True else if is_attempt e then False else sleeps_first h)"

fun attempts_separated :: "syscall list \<Rightarrow> bool" where
  "attempts_separated [] = True"
| "attempts_separated (e # h) =
     ((if is_attempt e then sleeps_first h else True) \<and> attempts_separated h)"

subsection \<open>The stale-lock time as Qt reads it\<close>

text \<open>
  \<^verbatim>\<open>QLockFile\<close> belongs to Qt, not to the repository. Its documentation gives the meaning of
  the stale-lock time: a lock file older than that many milliseconds is considered stale,
  and the value 0 switches the detection off. \<open>staleByAge l age\<close> is that rule, for a
  lock file last modified \<open>age\<close> milliseconds ago.
\<close>

definition staleByAge :: "QLockFile \<Rightarrow> qint64 \<Rightarrow> bool" where
  "staleByAge l age = (0 < sint (staleLockTime l) \<and> sint (staleLockTime l) < \<bar>sint age\<bar>)"

subsection \<open>Sample hosts\<close>

text \<open>
  A POSIX host on which the service \<^verbatim>\<open>myservice\<close> is installed and running with PID 4242:
  the lock is held, a signal can be delivered, a process can be spawned.
\<close>

definition host_running :: os where
  "host_running =
     \<lparr>QT_CONFIG_process = True, Q_OS_WIN = False, logControl_debug = False,
      ServiceControl_start = (\<lambda>c. (False, c)),
      findExecutable = (\<lambda>name. if name = ''myservice'' then ''/usr/bin/myservice'' else []),
      absoluteFilePath = (\<lambda>dir file. dir @ ''/'' @ file),
      rootPath = ''/'', nullDevice = ''/dev/null'',
      tryLock_sys = (\<lambda>h. (False, LockFailedError)),
      getLockInfo_sys = (\<lambda>h. (True, 4242)),
      start_sys = (\<lambda>h. (True, 4243, [])),
      startDetached_sys = (\<lambda>h. (True, 4243, [])),
      kill_sys = (\<lambda>h. 0),
      FreeConsole_sys = (\<lambda>h. True),
      AttachConsole_sys = (\<lambda>h. True),
      SetConsoleCtrlHandler_sys = (\<lambda>h. True),
      GenerateConsoleCtrlEvent_sys = (\<lambda>h. True),
      GetLastError_string = (\<lambda>h. ''Access is denied.'')\<rparr>"

text \<open>The same host with the service stopped: the lock is free and there is no lock file.\<close>

definition host_stopped :: os where
  "host_stopped =
     host_running\<lparr>tryLock_sys := (\<lambda>h. (True, NoError)), getLockInfo_sys := (\<lambda>h. (False, 0))\<rparr>"

text \<open>The same host with a runtime directory the controller may not write to.\<close>

definition host_denied :: os where
  "host_denied =
     host_running\<lparr>tryLock_sys := (\<lambda>h. (False, PermissionError)),
                  getLockInfo_sys := (\<lambda>h. (False, 0))\<rparr>"

text \<open>A host with the service stopped and no executable of any name on the search path.\<close>

definition host_bare :: os where
  "host_bare = host_stopped\<lparr>findExecutable := (\<lambda>name. [])\<rparr>"

text \<open>
  POSIX hosts on which the lock file of the running service records a number that does
  not fit the 32 bits of \<^verbatim>\<open>pid_t\<close>: \<open>2^32 + 4242\<close> on the first, \<open>2^32 - 1\<close> on the second.
\<close>

definition host_wide_pid :: os where
  "host_wide_pid = host_running\<lparr>getLockInfo_sys := (\<lambda>h. (True, 4294971538))\<rparr>"

definition host_ones_pid :: os where
  "host_ones_pid = host_running\<lparr>getLockInfo_sys := (\<lambda>h. (True, 4294967295))\<rparr>"

text \<open>A Windows host on which the running service ignores every interrupt event.\<close>

definition windows_deaf :: os where
  "windows_deaf = host_running\<lparr>Q_OS_WIN := True\<rparr>"

text \<open>A Windows host on which the service exits once the third interrupt event is sent.\<close>

definition windows_slow :: os where
  "windows_slow =
     host_running\<lparr>Q_OS_WIN := True,
                  tryLock_sys := (\<lambda>h. if 3 \<le> attempts h then (True, NoError)
                                       else (False, LockFailedError))\<rparr>"

text \<open>A Windows host on which no interrupt event can be generated.\<close>

definition windows_mute :: os where
  "windows_mute = host_running\<lparr>Q_OS_WIN := True, GenerateConsoleCtrlEvent_sys := (\<lambda>h. False)\<rparr>"

text \<open>
  A Windows host on which the first interrupt event cannot be generated, the second one
  can, and the service exits on receiving it.
\<close>

definition windows_stutter :: os where
  "windows_stutter =
     host_running\<lparr>Q_OS_WIN := True,
                  GenerateConsoleCtrlEvent_sys := (\<lambda>h. 2 \<le> attempts h),
                  tryLock_sys := (\<lambda>h. if 2 \<le> attempts h then (True, NoError)
                                       else (False, LockFailedError))\<rparr>"

text \<open>Windows hosts on which a setup step of \<^verbatim>\<open>stop\<close> fails.\<close>

definition windows_no_attach :: os where
  "windows_no_attach = host_running\<lparr>Q_OS_WIN := True, AttachConsole_sys := (\<lambda>h. False)\<rparr>"

definition windows_no_handler :: os where
  "windows_no_handler =
     host_running\<lparr>Q_OS_WIN := True, SetConsoleCtrlHandler_sys := (\<lambda>h. False)\<rparr>"

text \<open>A controller for \<^verbatim>\<open>myservice\<close> that has made no call yet.\<close>

definition myservice :: control where
  "myservice =
     \<lparr>debugMode = False, serviceId = ''myservice'', runtimeDir = ''/run/user/1000'',
      error = [], trace = []\<rparr>"

subsection \<open>Results\<close>

lemmas calls = tryLock_def unlock_def getLockInfo_def kill_def FreeConsole_def AllocConsole_def
  AttachConsole_def SetConsoleCtrlHandler_def GenerateConsoleCtrlEvent_def msleep_def call_def
  setError_def tr_def qt_error_string_def

lemmas hosts = host_running_def host_stopped_def host_denied_def host_bare_def
  windows_deaf_def windows_slow_def windows_mute_def windows_stutter_def
  windows_no_attach_def windows_no_handler_def host_wide_pid_def host_ones_pid_def

subsubsection \<open>Auxiliary facts\<close>

text \<open>The backend offers \<^verbatim>\<open>Start\<close> exactly in a build with process support.\<close>

lemma supportFlags_Start: "StartFlag \<in> supportFlags os \<longleftrightarrow> QT_CONFIG_process os"
  by (simp add: supportFlags_def Let_def)

lemma statusLock_call [simp]:
  "statusLock os (call e c) = statusLock os c"
  "statusLock os (setError m c) = statusLock os c"
  "statusLock os (c\<lparr>trace := h\<rparr>) = statusLock os c"
  "statusLock os (c\<lparr>error := m\<rparr>) = statusLock os c"
  by (simp_all add: statusLock_def call_def setError_def)

lemma status_unfold:
  "status os c =
     (case tryLock_sys os (trace c @ [TryLock (statusLock os c)]) of
        (locked, err) \<Rightarrow>
          if locked then (Stopped, call (Unlock (statusLock os c)) (call (TryLock (statusLock os c)) c))
          else if err = LockFailedError then (Running, call (TryLock (statusLock os c)) c)
          else (Unknown,
                setError (''Failed to access lockfile with error: '' @ decimal (LockError_code err))
                  (call (TryLock (statusLock os c)) c)))"
  by (simp add: status_def calls Let_def split: prod.splits)

lemma status_Running:
  "fst (status os c) = Running \<Longrightarrow> status os c = (Running, call (TryLock (statusLock os c)) c)"
  by (simp add: status_unfold split: prod.splits if_splits)

lemma status_Stopped:
  "fst (status os c) = Stopped \<Longrightarrow>
   status os c = (Stopped, call (Unlock (statusLock os c)) (call (TryLock (statusLock os c)) c))"
  by (simp add: status_unfold split: prod.splits if_splits)

lemma status_fields [simp]:
  "debugMode (snd (status os c)) = debugMode c"
  "serviceId (snd (status os c)) = serviceId c"
  "runtimeDir (snd (status os c)) = runtimeDir c"
  by (simp_all add: status_unfold call_def setError_def split: prod.splits)

lemma status_statusLock [simp]: "statusLock os (snd (status os c)) = statusLock os c"
  by (simp add: statusLock_def)

lemma getPid_unfold:
  "getPid os c =
     (case getLockInfo_sys os (trace c @ [GetLockInfo (statusLock os c)]) of
        (ok, pid) \<Rightarrow> (if ok then pid else - 1, call (GetLockInfo (statusLock os c)) c))"
  by (simp add: getPid_def getLockInfo_def call_def Let_def split: prod.splits)

lemma scast_pid_in_range:
  "- (2 ^ 31) \<le> sint (pid :: qint64) \<Longrightarrow> sint pid < 2 ^ 31 \<Longrightarrow> sint (scast pid :: pid_t) = sint pid"
  by (simp add: signed_scast_eq signed_take_bit_int_eq_self)

lemma status_spawns [simp]:
  "filter is_spawn (trace (snd (status os c))) = filter is_spawn (trace c)"
  by (simp add: status_unfold call_def setError_def split: prod.splits)

lemma attempts_simps [simp]:
  "attempts [] = 0"
  "attempts (e # h) = (if is_attempt e then 1 else 0) + attempts h"
  "attempts (h @ g) = attempts h + attempts g"
  by (simp_all add: attempts_def)

lemma slept_append [simp]: "slept (h @ g) = slept h + slept g"
  by (induction h rule: slept.induct) simp_all

lemma status_attempts [simp]: "attempts (trace (snd (status os c))) = attempts (trace c)"
  by (simp add: status_unfold call_def setError_def split: prod.splits)

lemma status_slept [simp]: "slept (trace (snd (status os c))) = slept (trace c)"
  by (simp add: status_unfold call_def setError_def split: prod.splits)

lemma stop_loop_end: "\<not> i < 10 \<Longrightarrow> stop_loop os i c = (False, c)"
  by (simp add: stop_loop.simps)

lemma stop_loop_not_sent:
  assumes "i < 10" and "GenerateConsoleCtrlEvent os CTRL_C_EVENT 0 c = (False, c1)"
  shows "stop_loop os i c =
           stop_loop os (i + 1)
             (setError (''Failed to send stop signal with error: '' @ qt_error_string os c1) c1)"
  using assms by (subst stop_loop.simps) (simp add: tr_def)

lemma stop_loop_sent:
  assumes "i < 10" and "GenerateConsoleCtrlEvent os CTRL_C_EVENT 0 c = (True, c1)"
    and "status os c1 = (st, c2)"
  shows "stop_loop os i c = (if st = Running then stop_loop os (i + 1) (msleep 500 c2) else (True, c2))"
  using assms by (subst stop_loop.simps) simp

lemma Generate_trace:
  "GenerateConsoleCtrlEvent os ev grp c = (sent, c1) \<Longrightarrow>
   trace c1 = trace c @ [GenerateConsoleCtrlEventCall ev grp] \<and> error c1 = error c"
  by (auto simp: GenerateConsoleCtrlEvent_def call_def Let_def)

lemma stop_loop_bounds:
  "i \<le> 10 \<Longrightarrow>
   attempts (trace (snd (stop_loop os i c))) \<le> attempts (trace c) + (10 - i)
   \<and> slept (trace (snd (stop_loop os i c))) \<le> slept (trace c) + 500 * (10 - i)
   \<and> (\<not> fst (stop_loop os i c) \<longrightarrow>
        attempts (trace (snd (stop_loop os i c))) = attempts (trace c) + (10 - i))"
proof (induction "10 - i" arbitrary: i c)
  case 0
  then show ?case by (simp add: stop_loop_end)
next
  case (Suc n)
  then have i: "i < 10" and n: "n = 10 - (i + 1)" and le: "i + 1 \<le> 10"
    and d: "10 - i = Suc (10 - (i + 1))"
    by simp_all
  obtain sent c1 where g: "GenerateConsoleCtrlEvent os CTRL_C_EVENT 0 c = (sent, c1)"
    by (cases "GenerateConsoleCtrlEvent os CTRL_C_EVENT 0 c")
  note t = Generate_trace [OF g]
  have a1: "attempts (trace c1) = attempts (trace c) + 1" and s1: "slept (trace c1) = slept (trace c)"
    by (simp_all add: t)
  show ?case
  proof (cases sent)
    case False
    define c' where "c' = setError (''Failed to send stop signal with error: '' @ qt_error_string os c1) c1"
    have tr: "attempts (trace c') = attempts (trace c) + 1" "slept (trace c') = slept (trace c)"
      by (simp_all add: c'_def setError_def a1 s1)
    from False g have u: "stop_loop os i c = stop_loop os (i + 1) c'"
      using stop_loop_not_sent [OF i] by (simp add: c'_def)
    from Suc.hyps(1) [OF n le, of c'] show ?thesis
      unfolding u tr d by auto
  next
    case True
    obtain st c2 where s: "status os c1 = (st, c2)"
      by (cases "status os c1")
    have a2: "attempts (trace c2) = attempts (trace c) + 1"
      using status_attempts [of os c1] s a1 by simp
    have s2: "slept (trace c2) = slept (trace c)"
      using status_slept [of os c1] s s1 by simp
    from True g s have u: "stop_loop os i c =
        (if st = Running then stop_loop os (i + 1) (msleep 500 c2) else (True, c2))"
      using stop_loop_sent [OF i] by simp
    show ?thesis
    proof (cases "st = Running")
      case True
      define c' where "c' = msleep 500 c2"
      have tr: "attempts (trace c') = attempts (trace c) + 1" "slept (trace c') = slept (trace c) + 500"
        by (simp_all add: c'_def msleep_def call_def a2 s2)
      from True u have u': "stop_loop os i c = stop_loop os (i + 1) c'"
        by (simp add: c'_def)
      from Suc.hyps(1) [OF n le, of c'] show ?thesis
        unfolding u' tr d by auto
    next
      case False
      with u have "stop_loop os i c = (True, c2)"
        by simp
      then show ?thesis
        by (simp add: a2 s2 d)
    qed
  qed
qed

lemma Generate_result:
  "GenerateConsoleCtrlEvent os ev grp c = (sent, c1) \<Longrightarrow>
   sent = GenerateConsoleCtrlEvent_sys os (trace c1) \<and> statusLock os c1 = statusLock os c"
  by (auto simp: GenerateConsoleCtrlEvent_def Let_def)

lemma call_statusLock:
  "FreeConsole os c = (r, c1) \<Longrightarrow> statusLock os c1 = statusLock os c"
  "AttachConsole os p c = (r, c1) \<Longrightarrow> statusLock os c1 = statusLock os c"
  "SetConsoleCtrlHandler os add c = (r, c1) \<Longrightarrow> statusLock os c1 = statusLock os c"
  "getPid os c = (pid, c1) \<Longrightarrow> statusLock os c1 = statusLock os c"
  "status os c = (st, c1) \<Longrightarrow> statusLock os c1 = statusLock os c"
      apply (auto simp: FreeConsole_def AttachConsole_def SetConsoleCtrlHandler_def Let_def
        getPid_unfold split: prod.splits)
  using status_statusLock [of os c] by simp

lemma stop_loop_fruitless:
  assumes "\<forall>h. GenerateConsoleCtrlEvent_sys os h \<longrightarrow>
             tryLock_sys os (h @ [TryLock l]) = (False, LockFailedError)"
  shows "i \<le> 10 \<Longrightarrow> statusLock os c = l \<Longrightarrow> fst (stop_loop os i c) = False"
proof (induction "10 - i" arbitrary: i c)
  case 0
  then show ?case by (simp add: stop_loop_end)
next
  case (Suc n)
  then have i: "i < 10" and n: "n = 10 - (i + 1)" and le: "i + 1 \<le> 10"
    by simp_all
  obtain sent c1 where g: "GenerateConsoleCtrlEvent os CTRL_C_EVENT 0 c = (sent, c1)"
    by (cases "GenerateConsoleCtrlEvent os CTRL_C_EVENT 0 c")
  from Generate_result [OF g] Suc.prems(2)
  have sent: "sent = GenerateConsoleCtrlEvent_sys os (trace c1)" and l1: "statusLock os c1 = l"
    by simp_all
  show ?case
  proof (cases sent)
    case False
    define c' where "c' = setError (''Failed to send stop signal with error: '' @ qt_error_string os c1) c1"
    have l': "statusLock os c' = l"
      by (simp add: c'_def l1)
    from False g have "stop_loop os i c = stop_loop os (i + 1) c'"
      using stop_loop_not_sent [OF i] by (simp add: c'_def)
    with Suc.hyps(1) [OF n le l'] show ?thesis
      by simp
  next
    case True
    with sent assms l1 have "tryLock_sys os (trace c1 @ [TryLock (statusLock os c1)]) = (False, LockFailedError)"
      by simp
    then have s: "status os c1 = (Running, call (TryLock l) c1)"
      by (simp add: status_unfold l1)
    define c' where "c' = msleep 500 (call (TryLock l) c1)"
    have l': "statusLock os c' = l"
      by (simp add: c'_def msleep_def l1)
    from True g s have "stop_loop os i c = stop_loop os (i + 1) c'"
      using stop_loop_sent [OF i, of os c c1 Running "call (TryLock l) c1"] by (simp add: c'_def)
    with Suc.hyps(1) [OF n le l'] show ?thesis
      by simp
  qed
qed

lemma stop_reaches_platform:
  assumes "status os c = (st, c1)" and "st \<noteq> Stopped"
    and "getPid os c1 = (pid, c2)" and "pid \<noteq> - 1"
  shows "stop os c = (if Q_OS_WIN os then stop_windows os pid c2 else stop_posix os pid c2)"
  using assms by (simp add: stop_def)

lemma guard_calls:
  "snd (FreeConsole os c) = c\<lparr>trace := trace c @ [FreeConsoleCall]\<rparr>"
  "snd (SetConsoleCtrlHandler os add c) = c\<lparr>trace := trace c @ [SetConsoleCtrlHandlerCall add]\<rparr>"
  "AllocConsole c = c\<lparr>trace := trace c @ [AllocConsoleCall]\<rparr>"
  by (simp_all add: FreeConsole_def SetConsoleCtrlHandler_def AllocConsole_def call_def Let_def)

lemma stop_windows_attach_failed:
  assumes "FreeConsole os c = (hadConsole, c1)"
    and "AttachConsole os (ucast pid) c1 = (False, c2)"
  shows "stop_windows os pid c =
           (False,
            c2\<lparr>error := ''Failed to attach to service console with error: '' @ GetLastError_string os (trace c2),
               trace := trace c2 @ (if hadConsole then [AllocConsoleCall] else [])\<rparr>)"
  by (simp add: stop_windows_def assms guard_calls setError_def tr_def qt_error_string_def)

lemma stop_windows_handler_failed:
  assumes "FreeConsole os c = (hadConsole, c1)"
    and "AttachConsole os (ucast pid) c1 = (True, c2)"
    and "SetConsoleCtrlHandler os True c2 = (False, c3)"
  shows "stop_windows os pid c =
           (False,
            c3\<lparr>error := ''Failed to disable local console handler with error: '' @ GetLastError_string os (trace c3),
               trace := trace c3 @ FreeConsoleCall # (if hadConsole then [AllocConsoleCall] else [])\<rparr>)"
  by (simp add: stop_windows_def assms guard_calls setError_def tr_def qt_error_string_def)

lemma stop_windows_looped:
  assumes "FreeConsole os c = (hadConsole, c1)"
    and "AttachConsole os (ucast pid) c1 = (True, c2)"
    and "SetConsoleCtrlHandler os True c2 = (True, c3)"
    and "stop_loop os 0 c3 = (ok, c4)"
  shows "stop_windows os pid c =
           (ok,
            c4\<lparr>error := (if ok then error c4 else ''Service did not stop yet''),
               trace := trace c4 @ SetConsoleCtrlHandlerCall False # FreeConsoleCall #
                          (if hadConsole then [AllocConsoleCall] else [])\<rparr>)"
  by (simp add: stop_windows_def assms guard_calls setError_def tr_def)

lemma call_trace:
  "FreeConsole os c = (r, c1) \<Longrightarrow> trace c1 = trace c @ [FreeConsoleCall]"
  "AttachConsole os p c = (r, c1) \<Longrightarrow> trace c1 = trace c @ [AttachConsoleCall p]"
  "SetConsoleCtrlHandler os add c = (r, c1) \<Longrightarrow> trace c1 = trace c @ [SetConsoleCtrlHandlerCall add]"
  by (auto simp: FreeConsole_def AttachConsole_def SetConsoleCtrlHandler_def call_def Let_def)

lemma getPid_trace:
  "getPid os c = (pid, c1) \<Longrightarrow> trace c1 = trace c @ [GetLockInfo (statusLock os c)]"
  by (auto simp: getPid_unfold call_def split: prod.splits)

lemma stop_setup_failure_reported:
  assumes "Q_OS_WIN os"
    and "status os c = (st, c1)" and "st \<noteq> Stopped"
    and "getPid os c1 = (pid, c2)" and "pid \<noteq> - 1"
    and "FreeConsole os c2 = (hadConsole, c3)"
  shows "AttachConsole os (ucast pid) c3 = (False, c4) \<Longrightarrow>
           fst (stop os c) = False
           \<and> error (snd (stop os c)) =
               ''Failed to attach to service console with error: '' @ GetLastError_string os (trace c4)"
    and "AttachConsole os (ucast pid) c3 = (True, c4) \<Longrightarrow>
         SetConsoleCtrlHandler os True c4 = (False, c5) \<Longrightarrow>
           fst (stop os c) = False
           \<and> error (snd (stop os c)) =
               ''Failed to disable local console handler with error: '' @
                 GetLastError_string os (trace c5)"
  using stop_reaches_platform [OF assms(2-5)] assms(1)
  by (simp_all add: stop_windows_attach_failed [OF assms(6)] stop_windows_handler_failed [OF assms(6)])

lemmas run = stop_def stop_windows_def stop_loop.simps status_unfold getPid_unfold calls hosts
  myservice_def CTRL_C_EVENT_def statusLock_def setStaleLockTime_def QLockFile_create_def INT_MAX_def

subsubsection \<open>The status protocol\<close>

text \<open>
  Claim C1. Whatever the host answers to the non-blocking \<^verbatim>\<open>tryLock\<close> on the status lock
  decides what \<^verbatim>\<open>status()\<close> returns. If the lock was acquired, the only further call is the
  \<^verbatim>\<open>unlock\<close> of that lock and the result is \<open>Stopped\<close>. If it was not acquired and the lock
  reports \<open>LockFailedError\<close> (somebody else holds it), the result is \<open>Running\<close> and nothing
  else happens. If it was not acquired for any other reason, the result is \<open>Unknown\<close> and
  the error message is set to "Failed to access lockfile with error: " followed by the
  number of the lock error.
\<close>

theorem status_follows_lock:
  assumes "tryLock_sys os (trace c @ [TryLock (statusLock os c)]) = (locked, err)"
  shows "(locked \<longrightarrow>
            status os c =
              (Stopped, c\<lparr>trace := trace c @ [TryLock (statusLock os c), Unlock (statusLock os c)]\<rparr>))
       \<and> (\<not> locked \<and> err = LockFailedError \<longrightarrow>
            status os c = (Running, c\<lparr>trace := trace c @ [TryLock (statusLock os c)]\<rparr>))
       \<and> (\<not> locked \<and> err \<noteq> LockFailedError \<longrightarrow>
            status os c =
              (Unknown,
               c\<lparr>trace := trace c @ [TryLock (statusLock os c)],
                 error := ''Failed to access lockfile with error: '' @ decimal (LockError_code err)\<rparr>))"
  using assms by (simp add: status_def calls Let_def)

theorem status_follows_lock_witness:
  "status host_stopped myservice =
     (Stopped,
      myservice\<lparr>trace := [TryLock (statusLock host_stopped myservice),
                          Unlock (statusLock host_stopped myservice)]\<rparr>)
   \<and> status host_running myservice =
     (Running, myservice\<lparr>trace := [TryLock (statusLock host_running myservice)]\<rparr>)
   \<and> status host_denied myservice =
     (Unknown,
      myservice\<lparr>trace := [TryLock (statusLock host_denied myservice)],
                error := ''Failed to access lockfile with error: 2''\<rparr>)"
  using status_follows_lock [of host_stopped myservice True NoError]
    status_follows_lock [of host_running myservice False LockFailedError]
    status_follows_lock [of host_denied myservice False PermissionError]
  by (simp add: hosts myservice_def decimal.simps [of 2])

text \<open>
  Claim C9. \<^verbatim>\<open>getPid()\<close> makes one call, \<^verbatim>\<open>getLockInfo\<close> on the status lock, and never
  \<^verbatim>\<open>tryLock\<close>: the lock is read, not acquired. When that call succeeds, the PID it read
  from the lock file is returned; when it fails, which is how Qt reports that there is no
  lock file or that its contents cannot be read, the result is \<open>-1\<close>.
\<close>

theorem getPid_reads_lock_info:
  assumes "getLockInfo_sys os (trace c @ [GetLockInfo (statusLock os c)]) = (ok, pid)"
  shows "getPid os c =
           ((if ok then pid else - 1), c\<lparr>trace := trace c @ [GetLockInfo (statusLock os c)]\<rparr>)"
  using assms by (simp add: getPid_def calls Let_def)

theorem getPid_reads_lock_info_witness:
  "getPid host_running myservice =
     (4242, myservice\<lparr>trace := [GetLockInfo (statusLock host_running myservice)]\<rparr>)
   \<and> getPid host_stopped myservice =
     (- 1, myservice\<lparr>trace := [GetLockInfo (statusLock host_stopped myservice)]\<rparr>)"
  using getPid_reads_lock_info [of host_running myservice True 4242]
    getPid_reads_lock_info [of host_stopped myservice False 0]
  by (simp add: hosts myservice_def)

subsubsection \<open>Generic commands\<close>

text \<open>
  Claim C10. \<^verbatim>\<open>callGenericCommand\<close> returns the same value, and leaves the same state, for
  any two argument lists: the kind \<^verbatim>\<open>getPid\<close> gives what \<^verbatim>\<open>getPid()\<close> gives, every other
  kind gives an invalid \<^verbatim>\<open>QVariant\<close> and makes no call.
\<close>

theorem callGenericCommand_ignores_args:
  "callGenericCommand os kind args1 c = callGenericCommand os kind args2 c
   \<and> (kind = ''getPid'' \<longrightarrow>
        callGenericCommand os kind args1 c = (LongLong (fst (getPid os c)), snd (getPid os c)))
   \<and> (kind \<noteq> ''getPid'' \<longrightarrow> callGenericCommand os kind args1 c = (Invalid, c))"
  by (simp add: callGenericCommand_def split: prod.splits)

theorem callGenericCommand_ignores_args_witness:
  "callGenericCommand host_running ''getPid'' [] myservice =
     callGenericCommand host_running ''getPid'' [Text ''x'', LongLong 7] myservice
   \<and> callGenericCommand host_running ''getPid'' [] myservice =
       (LongLong 4242, myservice\<lparr>trace := [GetLockInfo (statusLock host_running myservice)]\<rparr>)
   \<and> callGenericCommand host_running ''reload'' [Text ''x''] myservice = (Invalid, myservice)"
  using callGenericCommand_ignores_args [of host_running "''getPid''" "[]" myservice "[Text ''x'', LongLong 7]"]
    callGenericCommand_ignores_args [of host_running "''reload''" "[Text ''x'']" myservice "[]"]
  by (simp add: callGenericCommand_def getPid_def calls hosts myservice_def Let_def)

text \<open>
  Claim C6. The status lock is created with the stale-lock time \<^verbatim>\<open>INT_MAX\<close>, that is
  2147483647 ms (a little under 25 days), under the comment "disable stale locks". That is
  not the value 0 with which Qt switches the detection off: by Qt's rule a lock file
  last modified 2147483648 ms ago is stale by its age alone.
\<close>

theorem statusLock_goes_stale:
  "staleLockTime (statusLock os c) = 2147483647
   \<and> staleLockTime (statusLock os c) \<noteq> 0
   \<and> staleByAge (statusLock os c) 2147483648"
  by (simp add: statusLock_def setStaleLockTime_def QLockFile_create_def INT_MAX_def staleByAge_def)

subsubsection \<open>Starting and stopping\<close>

text \<open>
  Claim C2. In a build with process support, when \<^verbatim>\<open>status()\<close> reports \<open>Running\<close>,
  \<^verbatim>\<open>start()\<close> returns true and the calls it makes are the \<^verbatim>\<open>tryLock\<close> of that status check
  and, if debug logging is enabled, the \<^verbatim>\<open>getLockInfo\<close> of the log line: no process is
  spawned. When \<^verbatim>\<open>status()\<close> reports \<open>Stopped\<close>, \<^verbatim>\<open>stop()\<close> returns true and the calls it
  makes are the \<^verbatim>\<open>tryLock\<close> and \<^verbatim>\<open>unlock\<close> of that status check: no signal is sent and no
  console function is called. Neither touches the error message.
\<close>

theorem start_stop_idempotent:
  "(QT_CONFIG_process os \<and> fst (status os c) = Running \<longrightarrow>
      start os c =
        (True,
         c\<lparr>trace := trace c @ TryLock (statusLock os c) #
                      (if logControl_debug os then [GetLockInfo (statusLock os c)] else [])\<rparr>)
      \<and> filter is_spawn (trace (snd (start os c))) = filter is_spawn (trace c))
   \<and> (fst (status os c) = Stopped \<longrightarrow>
      stop os c =
        (True, c\<lparr>trace := trace c @ [TryLock (statusLock os c), Unlock (statusLock os c)]\<rparr>)
      \<and> filter is_signal (trace (snd (stop os c))) = filter is_signal (trace c))"
proof (intro conjI impI)
  assume "QT_CONFIG_process os \<and> fst (status os c) = Running"
  then have p: "QT_CONFIG_process os"
    and r: "status os c = (Running, call (TryLock (statusLock os c)) c)"
    by (simp_all add: status_Running)
  show s: "start os c =
        (True,
         c\<lparr>trace := trace c @ TryLock (statusLock os c) #
                      (if logControl_debug os then [GetLockInfo (statusLock os c)] else [])\<rparr>)"
    by (simp add: start_def p r getPid_unfold call_def split: prod.splits)
  show "filter is_spawn (trace (snd (start os c))) = filter is_spawn (trace c)"
    by (simp add: s)
next
  assume "fst (status os c) = Stopped"
  then have r: "status os c =
      (Stopped, call (Unlock (statusLock os c)) (call (TryLock (statusLock os c)) c))"
    by (rule status_Stopped)
  show s: "stop os c =
        (True, c\<lparr>trace := trace c @ [TryLock (statusLock os c), Unlock (statusLock os c)]\<rparr>)"
    by (simp add: stop_def r call_def)
  show "filter is_signal (trace (snd (stop os c))) = filter is_signal (trace c)"
    by (simp add: s)
qed

theorem start_stop_idempotent_witness:
  "QT_CONFIG_process host_running
   \<and> fst (status host_running myservice) = Running
   \<and> start host_running myservice =
       (True, myservice\<lparr>trace := [TryLock (statusLock host_running myservice)]\<rparr>)
   \<and> filter is_spawn (trace (snd (start host_running myservice))) = []
   \<and> fst (status host_stopped myservice) = Stopped
   \<and> stop host_stopped myservice =
       (True, myservice\<lparr>trace := [TryLock (statusLock host_stopped myservice),
                                   Unlock (statusLock host_stopped myservice)]\<rparr>)
   \<and> filter is_signal (trace (snd (stop host_stopped myservice))) = []"
  using start_stop_idempotent [of host_running myservice]
    start_stop_idempotent [of host_stopped myservice]
  by (simp add: status_unfold calls hosts myservice_def)

text \<open>
  Claim C5, as stated, sends the signal to the resolved PID, whatever it is. The PID is
  resolved as a \<^verbatim>\<open>qint64\<close> and compared with \<open>-1\<close> as such, but \<^verbatim>\<open>kill\<close> receives it cast to
  \<^verbatim>\<open>pid_t\<close>. When the lock file records \<open>2^32 + 4242\<close>, the signal goes to process 4242;
  when it records \<open>2^32 - 1\<close>, which is not the \<open>-1\<close> that \<^verbatim>\<open>stop()\<close> refuses, \<^verbatim>\<open>kill\<close>
  is called with \<open>-1\<close>.
\<close>

theorem stop_posix_truncates_pid:
  "\<not> Q_OS_WIN host_wide_pid
   \<and> fst (status host_wide_pid myservice) = Running
   \<and> fst (getPid host_wide_pid (snd (status host_wide_pid myservice))) = 4294971538
   \<and> (4294971538 :: qint64) \<noteq> - 1
   \<and> stop host_wide_pid myservice =
       (True, myservice\<lparr>trace := [TryLock (statusLock host_wide_pid myservice),
                                   GetLockInfo (statusLock host_wide_pid myservice),
                                   Kill 4242 SIGTERM]\<rparr>)
   \<and> \<not> Q_OS_WIN host_ones_pid
   \<and> fst (status host_ones_pid myservice) = Running
   \<and> fst (getPid host_ones_pid (snd (status host_ones_pid myservice))) = 4294967295
   \<and> (4294967295 :: qint64) \<noteq> - 1
   \<and> stop host_ones_pid myservice =
       (True, myservice\<lparr>trace := [TryLock (statusLock host_ones_pid myservice),
                                   GetLockInfo (statusLock host_ones_pid myservice),
                                   Kill (- 1) SIGTERM]\<rparr>)"
  by (simp add: stop_def stop_posix_def status_unfold getPid_unfold calls hosts myservice_def
        statusLock_def)

text \<open>
  Claim C5, amended. On POSIX, when the service is not reported \<open>Stopped\<close> and \<^verbatim>\<open>getPid()\<close>
  gives a PID other than \<open>-1\<close>, \<^verbatim>\<open>stop()\<close> makes exactly one more call, \<^verbatim>\<open>kill\<close> with
  \<^verbatim>\<open>SIGTERM\<close> to that PID converted to \<^verbatim>\<open>pid_t\<close>, and returns whether \<^verbatim>\<open>kill\<close> returned 0.
  Nothing follows the signal: no sleep, no second status check. The conversion to \<^verbatim>\<open>pid_t\<close>
  keeps every value that a \<^verbatim>\<open>pid_t\<close> can hold, so a PID in that range receives the signal
  itself.
\<close>

theorem stop_posix_sends_SIGTERM:
  assumes "\<not> Q_OS_WIN os"
    and "status os c = (st, c1)" and "st \<noteq> Stopped"
    and "getPid os c1 = (pid, c2)" and "pid \<noteq> - 1"
  shows "stop os c =
           (kill_sys os (trace c2 @ [Kill (scast pid) SIGTERM]) = 0,
            c2\<lparr>trace := trace c2 @ [Kill (scast pid) SIGTERM]\<rparr>)
         \<and> (- (2 ^ 31) \<le> sint pid \<and> sint pid < 2 ^ 31 \<longrightarrow> sint (scast pid :: pid_t) = sint pid)"
  using assms by (simp add: stop_def stop_posix_def kill_def call_def Let_def scast_pid_in_range)

theorem stop_posix_sends_SIGTERM_witness:
  "\<not> Q_OS_WIN host_running
   \<and> status host_running myservice =
       (Running, myservice\<lparr>trace := [TryLock (statusLock host_running myservice)]\<rparr>)
   \<and> getPid host_running (myservice\<lparr>trace := [TryLock (statusLock host_running myservice)]\<rparr>) =
       (4242, myservice\<lparr>trace := [TryLock (statusLock host_running myservice),
                                   GetLockInfo (statusLock host_running myservice)]\<rparr>)
   \<and> stop host_running myservice =
       (True, myservice\<lparr>trace := [TryLock (statusLock host_running myservice),
                                   GetLockInfo (statusLock host_running myservice),
                                   Kill 4242 SIGTERM]\<rparr>)
   \<and> sint (scast (4242 :: qint64) :: pid_t) = 4242"
  using stop_posix_sends_SIGTERM [of host_running myservice Running
      "myservice\<lparr>trace := [TryLock (statusLock host_running myservice)]\<rparr>" 4242
      "myservice\<lparr>trace := [TryLock (statusLock host_running myservice),
                                   GetLockInfo (statusLock host_running myservice)]\<rparr>"]
  by (simp add: status_unfold getPid_unfold calls hosts myservice_def statusLock_def)

text \<open>
  Claim C8. In a build with process support, when no executable is found for the service
  identity and \<^verbatim>\<open>status()\<close> does not report \<open>Running\<close>, \<^verbatim>\<open>start()\<close> returns false, spawns
  nothing and sets the error message "Unabled to find executable for service with id"
  followed by the quoted identity; \<^verbatim>\<open>serviceExists()\<close> is false.
\<close>

theorem start_reports_missing_executable:
  assumes "QT_CONFIG_process os"
    and "findExecutable os (serviceId c) = []"
    and "fst (status os c) \<noteq> Running"
  shows "fst (start os c) = False
       \<and> error (snd (start os c)) =
           ''Unabled to find executable for service with id \"'' @ serviceId c @ ''\"''
       \<and> prefix ''Unabled to find executable'' (error (snd (start os c)))
       \<and> filter is_spawn (trace (snd (start os c))) = filter is_spawn (trace c)
       \<and> serviceExists os c = False"
proof -
  obtain st c1 where s: "status os c = (st, c1)"
    by (cases "status os c")
  with assms(3) have st: "st \<noteq> Running"
    by simp
  have id: "serviceId c1 = serviceId c"
    using status_fields(2) [of os c] s by simp
  have sp: "filter is_spawn (trace c1) = filter is_spawn (trace c)"
    using status_spawns [of os c] s by simp
  have r: "start os c =
      (False, setError (''Unabled to find executable for service with id \"'' @ serviceId c @ ''\"'') c1)"
    using assms(1,2) st by (simp add: start_def s id tr_def)
  show ?thesis
    by (simp add: r setError_def sp serviceExists_def assms(2))
qed

theorem start_reports_missing_executable_witness:
  "QT_CONFIG_process host_bare
   \<and> findExecutable host_bare (serviceId myservice) = []
   \<and> fst (status host_bare myservice) \<noteq> Running
   \<and> fst (start host_bare myservice) = False
   \<and> error (snd (start host_bare myservice)) =
       ''Unabled to find executable for service with id \"myservice\"''
   \<and> serviceExists host_bare myservice = False"
  using start_reports_missing_executable [of host_bare myservice]
  by (simp add: status_unfold calls hosts myservice_def)

text \<open>
  Claim C7, as stated, promises a spawn whenever the executable is found. It fails on a
  host where the executable is found and the service is already running: \<^verbatim>\<open>start()\<close>
  returns true after the status check and spawns nothing.
\<close>

theorem start_running_spawns_nothing:
  "QT_CONFIG_process host_running
   \<and> findExecutable host_running (serviceId myservice) = ''/usr/bin/myservice''
   \<and> start host_running myservice =
       (True, myservice\<lparr>trace := [TryLock (statusLock host_running myservice)]\<rparr>)
   \<and> filter is_spawn (trace (snd (start host_running myservice))) = []"
  by (simp add: start_def status_unfold calls hosts myservice_def)

text \<open>
  Claim C7, amended. In a build with process support, when the executable is found and
  \<^verbatim>\<open>status()\<close> does not report \<open>Running\<close>, \<^verbatim>\<open>start()\<close> makes exactly one more call after the
  status check: it launches a process (started and waited for in debug mode, detached
  otherwise) whose program is the executable found, whose arguments are exactly
  \<^verbatim>\<open>--backend\<close> and the backend id (\<^verbatim>\<open>debug\<close> in debug mode, \<^verbatim>\<open>standard\<close> otherwise), and whose
  working directory is the filesystem root.
\<close>

theorem start_spawns_with_backend_args:
  assumes "QT_CONFIG_process os"
    and "status os c = (st, c1)" and "st \<noteq> Running"
    and "findExecutable os (serviceId c) = bin" and "bin \<noteq> []"
  shows "\<exists>svcProc.
           trace (snd (start os c)) =
             trace c1 @ [if debugMode c then ProcessStart svcProc else ProcessStartDetached svcProc]
           \<and> program svcProc = bin
           \<and> arguments svcProc = [''--backend'', if debugMode c then ''debug'' else ''standard'']
           \<and> workingDirectory svcProc = rootPath os"
proof -
  have id: "serviceId c1 = serviceId c" "debugMode c1 = debugMode c"
    using status_fields [of os c] assms(2) by simp_all
  show ?thesis
  proof (cases "debugMode c")
    case True
    then show ?thesis
      using assms id
      by (simp add: start_def launchDebug_def prepareProc_def backend_def call_def setError_def
            Let_def split: prod.splits)
  next
    case False
    then show ?thesis
      using assms id
      by (simp add: start_def launchDetached_def prepareProc_def backend_def call_def setError_def
            Let_def split: prod.splits)
  qed
qed

theorem start_spawns_with_backend_args_witness:
  "QT_CONFIG_process host_stopped
   \<and> fst (status host_stopped myservice) \<noteq> Running
   \<and> findExecutable host_stopped (serviceId myservice) = ''/usr/bin/myservice''
   \<and> (\<exists>svcProc.
         trace (snd (start host_stopped myservice)) =
           [TryLock (statusLock host_stopped myservice),
            Unlock (statusLock host_stopped myservice),
            ProcessStartDetached svcProc]
         \<and> program svcProc = ''/usr/bin/myservice''
         \<and> arguments svcProc = [''--backend'', ''standard'']
         \<and> workingDirectory svcProc = ''/'')
   \<and> (\<exists>svcProc.
         trace (snd (start host_stopped (myservice\<lparr>debugMode := True\<rparr>))) =
           [TryLock (statusLock host_stopped myservice),
            Unlock (statusLock host_stopped myservice),
            ProcessStart svcProc]
         \<and> program svcProc = ''/usr/bin/myservice''
         \<and> arguments svcProc = [''--backend'', ''debug'']
         \<and> workingDirectory svcProc = ''/'')"
proof -
  let ?l = "statusLock host_stopped myservice"
  have a: "QT_CONFIG_process host_stopped"
    and b: "findExecutable host_stopped ''myservice'' = ''/usr/bin/myservice''"
    and r: "rootPath host_stopped = ''/''"
    by (simp_all add: hosts)
  have s: "status host_stopped myservice = (Stopped, myservice\<lparr>trace := [TryLock ?l, Unlock ?l]\<rparr>)"
    "status host_stopped (myservice\<lparr>debugMode := True\<rparr>) =
       (Stopped, myservice\<lparr>debugMode := True, trace := [TryLock ?l, Unlock ?l]\<rparr>)"
    by (simp_all add: status_unfold hosts call_def myservice_def statusLock_def)
  have i: "serviceId myservice = ''myservice''" "debugMode myservice = False"
    by (simp_all add: myservice_def)
  show ?thesis
    using start_spawns_with_backend_args [OF a s(1), of "''/usr/bin/myservice''"]
      start_spawns_with_backend_args [OF a s(2), of "''/usr/bin/myservice''"]
    by (simp add: a b r i s)
qed

subsubsection \<open>Stopping on Windows\<close>

text \<open>
  Claim C3. A failure to attach to the service's console and a failure to disable the
  local handler end \<^verbatim>\<open>stop()\<close> with false and their own message, on the two sample hosts
  below and on every host (\<open>stop_setup_failure_reported\<close>). A failure to generate the
  interrupt event does not: the loop records "Failed to send stop signal" and goes on to
  the next attempt. On a host where no event can be generated, \<^verbatim>\<open>stop()\<close> makes all ten
  attempts, without a sleep, and the message it leaves is "Service did not stop yet"; the
  captured error is lost. On a host where only the first event cannot be generated and the
  service exits on the second, \<^verbatim>\<open>stop()\<close> returns true.
\<close>

theorem stop_windows_send_failure:
  "fst (stop windows_no_attach myservice) = False
   \<and> error (snd (stop windows_no_attach myservice)) =
       ''Failed to attach to service console with error: Access is denied.''
   \<and> fst (stop windows_no_handler myservice) = False
   \<and> error (snd (stop windows_no_handler myservice)) =
       ''Failed to disable local console handler with error: Access is denied.''
   \<and> fst (stop windows_mute myservice) = False
   \<and> error (snd (stop windows_mute myservice)) = ''Service did not stop yet''
   \<and> attempts (trace (snd (stop windows_mute myservice))) = 10
   \<and> slept (trace (snd (stop windows_mute myservice))) = 0
   \<and> fst (stop windows_stutter myservice) = True
   \<and> error (snd (stop windows_stutter myservice)) =
       ''Failed to send stop signal with error: Access is denied.''
   \<and> attempts (trace (snd (stop windows_stutter myservice))) = 2"
  by (simp add: run)

text \<open>
  Claim C4. The claim has every attempt of the retry loop separated from the next by a
  500 ms sleep. The loop sleeps only after an attempt whose interrupt event was generated;
  after an event that could not be generated it goes on to the next attempt at once,
  because nothing leaves the loop there (the defect of claim C3). On the host where the
  first event cannot be generated there are two attempts and no sleep; on the host where
  none can be generated there are ten attempts and no sleep. On the two hosts where every
  event is generated, each attempt is separated from the next by a 500 ms sleep.
\<close>

theorem stop_windows_retry_without_sleep:
  "Q_OS_WIN windows_stutter
   \<and> fst (stop windows_stutter myservice) = True
   \<and> attempts (trace (snd (stop windows_stutter myservice))) = 2
   \<and> slept (trace (snd (stop windows_stutter myservice))) = 0
   \<and> \<not> attempts_separated (trace (snd (stop windows_stutter myservice)))
   \<and> Q_OS_WIN windows_mute
   \<and> fst (stop windows_mute myservice) = False
   \<and> attempts (trace (snd (stop windows_mute myservice))) = 10
   \<and> slept (trace (snd (stop windows_mute myservice))) = 0
   \<and> \<not> attempts_separated (trace (snd (stop windows_mute myservice)))
   \<and> attempts_separated (trace (snd (stop windows_deaf myservice)))
   \<and> attempts_separated (trace (snd (stop windows_slow myservice)))"
  by (simp add: run)

text \<open>
  What holds of the retry loop on every host. Once the Windows branch of \<^verbatim>\<open>stop()\<close> has
  attached to the service's console and disabled the local handler, its result is that of
  the loop, which makes at most 10 attempts and sleeps at most 5000 ms. If \<^verbatim>\<open>stop()\<close>
  returns false, all 10 attempts were made and the error message is "Service did not stop
  yet". If no generated event is ever followed by a status other than \<open>Running\<close>, then
  \<^verbatim>\<open>stop()\<close> does return false, after 10 attempts and with that message. At any attempt
  whose interrupt event was generated, the loop ends at once with success when \<^verbatim>\<open>status()\<close>
  reports anything other than \<open>Running\<close>, and sleeps 500 ms before the next attempt when it
  reports \<open>Running\<close>.
\<close>

theorem stop_windows_retry_bounded:
  assumes "Q_OS_WIN os"
    and "status os c = (st, c1)" and "st \<noteq> Stopped"
    and "getPid os c1 = (pid, c2)" and "pid \<noteq> - 1"
    and "FreeConsole os c2 = (hadConsole, c3)"
    and "AttachConsole os (ucast pid) c3 = (True, c4)"
    and "SetConsoleCtrlHandler os True c4 = (True, c5)"
  shows "fst (stop os c) = fst (stop_loop os 0 c5)
       \<and> attempts (trace (snd (stop os c))) \<le> attempts (trace c) + 10
       \<and> slept (trace (snd (stop os c))) \<le> slept (trace c) + 5000
       \<and> (\<not> fst (stop os c) \<longrightarrow>
            attempts (trace (snd (stop os c))) = attempts (trace c) + 10
            \<and> error (snd (stop os c)) = ''Service did not stop yet'')
       \<and> ((\<forall>h. GenerateConsoleCtrlEvent_sys os h \<longrightarrow>
                 tryLock_sys os (h @ [TryLock (statusLock os c)]) = (False, LockFailedError)) \<longrightarrow>
            fst (stop os c) = False
            \<and> attempts (trace (snd (stop os c))) = attempts (trace c) + 10
            \<and> error (snd (stop os c)) = ''Service did not stop yet'')
       \<and> (\<forall>i s s1 s2 st'.
            i < 10 \<and> GenerateConsoleCtrlEvent os CTRL_C_EVENT 0 s = (True, s1)
              \<and> status os s1 = (st', s2) \<longrightarrow>
            (st' \<noteq> Running \<longrightarrow> stop_loop os i s = (True, s2))
            \<and> (st' = Running \<longrightarrow> stop_loop os i s = stop_loop os (i + 1) (msleep 500 s2)))"
proof -
  obtain ok c6 where l: "stop_loop os 0 c5 = (ok, c6)"
    by (cases "stop_loop os 0 c5")
  have r: "stop os c =
      (ok,
       c6\<lparr>error := (if ok then error c6 else ''Service did not stop yet''),
          trace := trace c6 @ SetConsoleCtrlHandlerCall False # FreeConsoleCall #
                     (if hadConsole then [AllocConsoleCall] else [])\<rparr>)"
    using stop_reaches_platform [OF assms(2-5)] assms(1) stop_windows_looped [OF assms(6-8) l]
    by simp
  have a1: "attempts (trace c1) = attempts (trace c)" and s1: "slept (trace c1) = slept (trace c)"
    using status_attempts [of os c] status_slept [of os c] assms(2) by simp_all
  have a5: "attempts (trace c5) = attempts (trace c)" and s5: "slept (trace c5) = slept (trace c)"
    using getPid_trace [OF assms(4)] call_trace(1) [OF assms(6)] call_trace(2) [OF assms(7)]
      call_trace(3) [OF assms(8)] a1 s1
    by simp_all
  have l5: "statusLock os c5 = statusLock os c"
    using call_statusLock(5) [OF assms(2)] call_statusLock(4) [OF assms(4)]
      call_statusLock(1) [OF assms(6)] call_statusLock(2) [OF assms(7)]
      call_statusLock(3) [OF assms(8)]
    by simp
  from stop_loop_bounds [of 0 os c5] l
  have b: "attempts (trace c6) \<le> attempts (trace c) + 10"
    "slept (trace c6) \<le> slept (trace c) + 5000"
    "\<not> ok \<longrightarrow> attempts (trace c6) = attempts (trace c) + 10"
    by (simp_all add: a5 s5)
  have f: "\<not> ok"
    if "\<forall>h. GenerateConsoleCtrlEvent_sys os h \<longrightarrow>
              tryLock_sys os (h @ [TryLock (statusLock os c)]) = (False, LockFailedError)"
    using stop_loop_fruitless [OF that _ l5, of 0] l by simp
  have step: "\<forall>i s s1 s2 st'.
            i < 10 \<and> GenerateConsoleCtrlEvent os CTRL_C_EVENT 0 s = (True, s1)
              \<and> status os s1 = (st', s2) \<longrightarrow>
            (st' \<noteq> Running \<longrightarrow> stop_loop os i s = (True, s2))
            \<and> (st' = Running \<longrightarrow> stop_loop os i s = stop_loop os (i + 1) (msleep 500 s2))"
    by (simp add: stop_loop_sent)
  show ?thesis
    using b f step by (simp add: r l)
qed

theorem stop_windows_retry_bounded_witness:
  "Q_OS_WIN windows_deaf
   \<and> status windows_deaf myservice =
       (Running, myservice\<lparr>trace := [TryLock (statusLock windows_deaf myservice)]\<rparr>)
   \<and> getPid windows_deaf (myservice\<lparr>trace := [TryLock (statusLock windows_deaf myservice)]\<rparr>) =
       (4242, myservice\<lparr>trace := [TryLock (statusLock windows_deaf myservice),
                                   GetLockInfo (statusLock windows_deaf myservice)]\<rparr>)
   \<and> FreeConsole windows_deaf
         (myservice\<lparr>trace := [TryLock (statusLock windows_deaf myservice),
                               GetLockInfo (statusLock windows_deaf myservice)]\<rparr>) =
       (True, myservice\<lparr>trace := [TryLock (statusLock windows_deaf myservice),
                                   GetLockInfo (statusLock windows_deaf myservice),
                                   FreeConsoleCall]\<rparr>)
   \<and> AttachConsole windows_deaf (ucast (4242 :: qint64))
         (myservice\<lparr>trace := [TryLock (statusLock windows_deaf myservice),
                               GetLockInfo (statusLock windows_deaf myservice),
                               FreeConsoleCall]\<rparr>) =
       (True, myservice\<lparr>trace := [TryLock (statusLock windows_deaf myservice),
                                   GetLockInfo (statusLock windows_deaf myservice),
                                   FreeConsoleCall, AttachConsoleCall 4242]\<rparr>)
   \<and> SetConsoleCtrlHandler windows_deaf True
         (myservice\<lparr>trace := [TryLock (statusLock windows_deaf myservice),
                               GetLockInfo (statusLock windows_deaf myservice),
                               FreeConsoleCall, AttachConsoleCall 4242]\<rparr>) =
       (True, myservice\<lparr>trace := [TryLock (statusLock windows_deaf myservice),
                                   GetLockInfo (statusLock windows_deaf myservice),
                                   FreeConsoleCall, AttachConsoleCall 4242,
                                   SetConsoleCtrlHandlerCall True]\<rparr>)
   \<and> fst (stop windows_deaf myservice) = False
   \<and> attempts (trace (snd (stop windows_deaf myservice))) = 10
   \<and> slept (trace (snd (stop windows_deaf myservice))) = 5000
   \<and> error (snd (stop windows_deaf myservice)) = ''Service did not stop yet''
   \<and> fst (stop windows_slow myservice) = True
   \<and> attempts (trace (snd (stop windows_slow myservice))) = 3
   \<and> slept (trace (snd (stop windows_slow myservice))) = 1000"
  using stop_windows_retry_bounded [of windows_deaf myservice Running
      "myservice\<lparr>trace := [TryLock (statusLock windows_deaf myservice)]\<rparr>" 4242
      "myservice\<lparr>trace := [TryLock (statusLock windows_deaf myservice),
                              GetLockInfo (statusLock windows_deaf myservice)]\<rparr>"
      True
      "myservice\<lparr>trace := [TryLock (statusLock windows_deaf myservice),
                              GetLockInfo (statusLock windows_deaf myservice),
                              FreeConsoleCall]\<rparr>"
      "myservice\<lparr>trace := [TryLock (statusLock windows_deaf myservice),
                              GetLockInfo (statusLock windows_deaf myservice),
                              FreeConsoleCall, AttachConsoleCall 4242]\<rparr>"
      "myservice\<lparr>trace := [TryLock (statusLock windows_deaf myservice),
                              GetLockInfo (statusLock windows_deaf myservice),
                              FreeConsoleCall, AttachConsoleCall 4242,
                              SetConsoleCtrlHandlerCall True]\<rparr>"]
  by (simp add: run)

end
